theory Spec2Isabelle
  imports Main "HOL-Library.Word"
begin

unbundle bit_operations_syntax

section \<open>JavaScript values\<close>

text \<open>
  The arguments of \<^verbatim>\<open>helpers/url.js\<close> are untyped. The model covers the primitive
  values: \<^verbatim>\<open>undefined\<close>, \<^verbatim>\<open>null\<close>, booleans, strings, and the numbers that \<^verbatim>\<open>ToString\<close>
  prints as a plain decimal numeral (the integral numbers below 10^21 in magnitude). The
  module uses a number only through \<^verbatim>\<open>ToString\<close> and \<^verbatim>\<open>ToBoolean\<close>, so \<open>JNum n\<close> stands for
  the number that prints as the numeral \<open>n\<close>: above 2^53 that is the rounded value a double
  holds (2^60 prints as 1152921504606847000), and an \<open>n\<close> that no double prints stands for no
  value of the program. Objects, arrays, \<^verbatim>\<open>NaN\<close> and fractional numbers are not represented.
  A string is a list of characters.
\<close>

datatype jsval = JUndefined | JNull | JBool bool | JNum int | JStr string

text \<open>\<^verbatim>\<open>typeof v === 'string'\<close>.\<close>

fun is_string :: "jsval \<Rightarrow> bool" where
  "is_string (JStr s) = True"
| "is_string v = False"

text \<open>\<^verbatim>\<open>ToBoolean\<close>: what \<^verbatim>\<open>if (v)\<close>, \<^verbatim>\<open>!v\<close> and \<^verbatim>\<open>v ? a : b\<close> test.\<close>

fun truthy :: "jsval \<Rightarrow> bool" where
  "truthy JUndefined = False"
| "truthy JNull = False"
| "truthy (JBool b) = b"
| "truthy (JNum n) = (n \<noteq> 0)"
| "truthy (JStr s) = (s \<noteq> [])"

definition digit_char :: "nat \<Rightarrow> char" where
  "digit_char d = ''0123456789'' ! d"

function decimal :: "nat \<Rightarrow> string" where
  "decimal n = (if n < 10 then [digit_char n] else decimal (n div 10) @ [digit_char (n mod 10)])"
  by pat_completeness auto
termination
  by (relation "measure id") auto

text \<open>\<^verbatim>\<open>ToString\<close>: what \<^verbatim>\<open>'...' + v\<close> appends and what \<^verbatim>\<open>obj[v]\<close> uses as the property key.\<close>

fun to_string :: "jsval \<Rightarrow> string" where
  "to_string JUndefined = ''undefined''"
| "to_string JNull = ''null''"
| "to_string (JBool b) = (if b then ''true'' else ''false'')"
| "to_string (JNum n) = (if n < 0 then ''-'' @ decimal (nat (- n)) else decimal (nat n))"
| "to_string (JStr s) = s"

subsection \<open>\<^verbatim>\<open>String.prototype.split\<close> and \<^verbatim>\<open>Array.prototype.join\<close>\<close>

text \<open>
  \<^verbatim>\<open>s.split(c)\<close> for a one-character separator: the pieces between the separators, in order;
  the empty string gives one empty piece.
\<close>

fun split_on :: "char \<Rightarrow> string \<Rightarrow> string list" where
  "split_on c [] = [[]]"
| "split_on c (x # xs) =
     (if x = c then [] # split_on c xs
      else (case split_on c xs of [] \<Rightarrow> [[x]] | y # ys \<Rightarrow> (x # y) # ys))"

fun join_with :: "string \<Rightarrow> string list \<Rightarrow> string" where
  "join_with sep [] = []"
| "join_with sep [x] = x"
| "join_with sep (x # y # ys) = x @ sep @ join_with sep (y # ys)"

text \<open>\<^verbatim>\<open>join\<close> renders \<^verbatim>\<open>undefined\<close> and \<^verbatim>\<open>null\<close> elements as the empty string.\<close>

fun join_elem :: "jsval \<Rightarrow> string" where
  "join_elem JUndefined = []"
| "join_elem JNull = []"
| "join_elem v = to_string v"

definition array_join :: "string \<Rightarrow> jsval list \<Rightarrow> string" where
  "array_join sep xs = join_with sep (map join_elem xs)"

section \<open>Constants of the module\<close>

definition THUMB :: string where "THUMB = ''thumb''"
definition MEDIUM :: string where "MEDIUM = ''medium''"
definition FULL :: string where "FULL = ''full''"
definition ITEM :: string where "ITEM = ''item''"
definition VILLAGER :: string where "VILLAGER = ''villager''"
definition HASH_LENGTH :: nat where "HASH_LENGTH = 7"

definition getImageNotFoundFilename :: "string \<Rightarrow> string" where
  "getImageNotFoundFilename sz = ''/images/image-not-available-'' @ sz @ ''.svg''"

section \<open>addHashToUrl\<close>

text \<open>
  The \<^verbatim>\<open>for\<close> loop of \<^verbatim>\<open>addHashToUrl\<close>: while \<^verbatim>\<open>i < fileParts.length - 1\<close>, push
  \<^verbatim>\<open>fileParts[i]\<close>. The array returned by \<^verbatim>\<open>split\<close> is never empty, so the truncating
  subtraction agrees with the source.
\<close>

function push_parts :: "string list \<Rightarrow> nat \<Rightarrow> jsval list \<Rightarrow> jsval list" where
  "push_parts fileParts i newFileParts =
     (if i < length fileParts - 1
      then push_parts fileParts (i + 1) (newFileParts @ [JStr (fileParts ! i)])
      else newFileParts)"
  by pat_completeness auto
termination
  by (relation "measure (\<lambda>(fileParts, i, newFileParts). length fileParts - i)") auto

definition addHashToUrl :: "string \<Rightarrow> jsval \<Rightarrow> string" where
  "addHashToUrl inputUrl hash =
     (let fileParts = split_on CHR ''.'' inputUrl;
          newFileParts = push_parts fileParts 0 [];
          newFileParts = newFileParts @ [hash];
          newFileParts = newFileParts @ [JStr (fileParts ! (length fileParts - 1))]
      in array_join ''.'' newFileParts)"

section \<open>The environment: paths, files and the digest\<close>

text \<open>
  The module reads three things from its environment: the working directory of the process,
  the file system, and the MD5 digest of \<^verbatim>\<open>crypto\<close>. The model is a snapshot:
  \<^item> \<open>cwd_below_root\<close> is the working directory without its leading slash, so that
    \<^verbatim>\<open>process.cwd()\<close> is always an absolute path;
  \<^item> \<open>entries\<close> maps a location, the list of names from the root, to what is there: a regular
    file with its content as \<^verbatim>\<open>readFileSync(p, 'utf8')\<close> decodes it, a directory, or
    something that exists and cannot be read (a file without read permission). The root is a
    directory. Symbolic links are not represented;
  \<^item> \<open>md5\<close> is the 128-bit digest that \<^verbatim>\<open>createHash('md5').update(s, 'utf8')\<close> computes
    for the string \<open>s\<close>. It is a parameter: nothing is assumed about the digest function.
\<close>

datatype node = File string | Directory | Unreadable

datatype error = ENOENT | ENOTDIR | EISDIR | EACCES

record env =
  cwd_below_root :: string
  entries :: "string list \<rightharpoonup> node"
  md5 :: "string \<Rightarrow> 128 word"

definition process_cwd :: "env \<Rightarrow> string" where
  "process_cwd e = CHR ''/'' # cwd_below_root e"

definition is_absolute :: "string \<Rightarrow> bool" where
  "is_absolute p = (case p of [] \<Rightarrow> False | c # cs \<Rightarrow> c = CHR ''/'')"

subsection \<open>\<^verbatim>\<open>path.normalize\<close> and \<^verbatim>\<open>path.join\<close>\<close>

text \<open>
  One step of lexical normalisation, on the names kept so far: an empty name and \<^verbatim>\<open>.\<close> are
  dropped, \<^verbatim>\<open>..\<close> removes the last name kept. Above the start of the path, \<^verbatim>\<open>..\<close> is kept for
  a relative path (\<open>allowAboveRoot\<close>) and dropped for an absolute one.
\<close>

definition normalize_step :: "bool \<Rightarrow> string list \<Rightarrow> string \<Rightarrow> string list" where
  "normalize_step allowAboveRoot kept name =
     (if name = [] \<or> name = ''.'' then kept
      else if name = ''..'' then
        (if kept \<noteq> [] \<and> last kept \<noteq> ''..'' then butlast kept
         else if allowAboveRoot then kept @ [''..''] else kept)
      else kept @ [name])"

definition normalize_names :: "bool \<Rightarrow> string list \<Rightarrow> string list" where
  "normalize_names allowAboveRoot names = foldl (normalize_step allowAboveRoot) [] names"


text \<open>\<^verbatim>\<open>path.normalize\<close> of Node.js on POSIX.\<close>

definition path_normalize :: "string \<Rightarrow> string" where
  "path_normalize p =
     (if p = [] then ''.''
      else
        (let isAbsolute = is_absolute p;
             trailingSeparator = (last p = CHR ''/'');
             body = join_with ''/'' (normalize_names (\<not> isAbsolute) (split_on CHR ''/'' p))
         in if body = [] then
              (if isAbsolute then ''/'' else if trailingSeparator then ''./'' else ''.'')
            else
              (let body = (if trailingSeparator then body @ ''/'' else body)
               in if isAbsolute then CHR ''/'' # body else body)))"

text \<open>\<^verbatim>\<open>path.join\<close>: the non-empty arguments, joined by a slash, normalised.\<close>

definition path_join :: "string list \<Rightarrow> string" where
  "path_join paths = path_normalize (join_with ''/'' (filter (\<lambda>p. p \<noteq> []) paths))"

subsection \<open>How the file system resolves a path\<close>

text \<open>
  The file system follows a path name by name from the root, a relative path after the
  working directory. Every name, also an empty one, \<^verbatim>\<open>.\<close> and \<^verbatim>\<open>..\<close>, is looked up in the
  location reached so far, which has to be a directory: a name after a file fails with
  \<^verbatim>\<open>ENOTDIR\<close> (so does a slash after it), a name that is not there with \<^verbatim>\<open>ENOENT\<close>,
  and \<^verbatim>\<open>..\<close> leads to the parent only of a directory that exists. The empty path names
  nothing.
\<close>

definition node_at :: "env \<Rightarrow> string list \<Rightarrow> node option" where
  "node_at e loc = (if loc = [] then Some Directory else entries e loc)"

definition step :: "env \<Rightarrow> string list \<Rightarrow> string \<Rightarrow> error + string list" where
  "step e loc name =
     (case node_at e loc of
        None \<Rightarrow> Inl ENOENT
      | Some (File fileStr) \<Rightarrow> Inl ENOTDIR
      | Some Unreadable \<Rightarrow> Inl ENOTDIR
      | Some Directory \<Rightarrow>
          if name = [] \<or> name = ''.'' then Inr loc
          else if name = ''..'' then Inr (butlast loc)
          else (case node_at e (loc @ [name]) of
                  None \<Rightarrow> Inl ENOENT
                | Some n \<Rightarrow> Inr (loc @ [name])))"

fun walk :: "env \<Rightarrow> string list \<Rightarrow> string list \<Rightarrow> error + string list" where
  "walk e loc [] = Inr loc"
| "walk e loc (name # names) =
     (case step e loc name of Inl err \<Rightarrow> Inl err | Inr loc' \<Rightarrow> walk e loc' names)"

definition resolve :: "env \<Rightarrow> string \<Rightarrow> error + string list" where
  "resolve e p =
     (if p = [] then Inl ENOENT
      else walk e [] (split_on CHR ''/'' (if is_absolute p then p else process_cwd e @ ''/'' @ p)))"

text \<open>What a path names: a file, a directory, or nothing (the error).\<close>

definition stat :: "env \<Rightarrow> string \<Rightarrow> error + node" where
  "stat e p =
     (case resolve e p of
        Inl err \<Rightarrow> Inl err
      | Inr loc \<Rightarrow> (case node_at e loc of None \<Rightarrow> Inl ENOENT | Some n \<Rightarrow> Inr n))"

text \<open>
  \<^verbatim>\<open>fs.existsSync\<close> is true for a file and for a directory, and false when the path names
  nothing; it never raises. \<^verbatim>\<open>fs.readFileSync\<close> returns the content of a regular file and
  raises otherwise: \<^verbatim>\<open>EISDIR\<close> for a directory, \<^verbatim>\<open>EACCES\<close> for a file it may not read.
\<close>

definition existsSync :: "env \<Rightarrow> string \<Rightarrow> bool" where
  "existsSync e p = (case stat e p of Inl err \<Rightarrow> False | Inr n \<Rightarrow> True)"

definition readFileSync :: "env \<Rightarrow> string \<Rightarrow> error + string" where
  "readFileSync e p =
     (case stat e p of
        Inl err \<Rightarrow> Inl err
      | Inr (File fileStr) \<Rightarrow> Inr fileStr
      | Inr Directory \<Rightarrow> Inl EISDIR
      | Inr Unreadable \<Rightarrow> Inl EACCES)"

subsection \<open>Calls and exceptions\<close>

text \<open>
  Every call into \<^verbatim>\<open>fs\<close> and \<^verbatim>\<open>crypto\<close> is recorded, in order, with the path or the
  string it is given. An operation that can raise returns \<open>Inl\<close> of the error or \<open>Inr\<close> of
  its value, together with the calls it made up to there. The module catches nothing: an
  error raised inside a call ends the caller as well.
\<close>

datatype event =
    is_exists: ExistsSync string
  | is_read: ReadFileSync string
  | is_digest: Md5Digest string

type_synonym trace = "event list"

type_synonym 'a outcome = "(error + 'a) \<times> trace"

definition and_then :: "'a outcome \<Rightarrow> ('a \<Rightarrow> 'b outcome) \<Rightarrow> 'b outcome" where
  "and_then m f =
     (case m of
        (Inl err, t) \<Rightarrow> (Inl err, t)
      | (Inr x, t) \<Rightarrow> (case f x of (r, t') \<Rightarrow> (r, t @ t')))"

definition no_raise :: "'a \<times> trace \<Rightarrow> 'a outcome" where
  "no_raise m = (case m of (x, t) \<Rightarrow> (Inr x, t))"

text \<open>The lowercase hexadecimal rendering of a digest, \<^verbatim>\<open>digest('hex')\<close>: 32 characters.\<close>

definition hex_char :: "nat \<Rightarrow> char" where
  "hex_char d = ''0123456789abcdef'' ! d"

definition digest_hex :: "128 word \<Rightarrow> string" where
  "digest_hex w = map (\<lambda>i. hex_char (unat (drop_bit (4 * i) w AND 15))) (rev [0..<32])"

section \<open>createFileHash\<close>

text \<open>
  \<^verbatim>\<open>existsSync\<close>, then \<^verbatim>\<open>readFileSync\<close> and the first \<open>HASH_LENGTH\<close> characters
  (\<^verbatim>\<open>substr(0, HASH_LENGTH)\<close>) of the hexadecimal MD5 digest; \<^verbatim>\<open>undefined\<close> when the path names
  nothing. When the path names a directory or a file that cannot be read, \<^verbatim>\<open>readFileSync\<close>
  raises.
\<close>

definition createFileHash :: "env \<Rightarrow> string \<Rightarrow> jsval outcome" where
  "createFileHash e filePath =
     (if existsSync e filePath then
        (case readFileSync e filePath of
           Inl err \<Rightarrow> (Inl err, [ExistsSync filePath, ReadFileSync filePath])
         | Inr fileStr \<Rightarrow>
             (Inr (JStr (take HASH_LENGTH (digest_hex (md5 e fileStr)))),
              [ExistsSync filePath, ReadFileSync filePath, Md5Digest fileStr]))
      else (Inr JUndefined, [ExistsSync filePath]))"

section \<open>getImageUrl\<close>

text \<open>
  \<^verbatim>\<open>let imageId = id; if (variationId) { imageId += '-vv-' + variationId; }\<close>
\<close>

definition image_id :: "jsval \<Rightarrow> jsval \<Rightarrow> jsval" where
  "image_id ident variationId =
     (if truthy variationId
      then JStr (to_string ident @ ''-vv-'' @ to_string variationId)
      else ident)"

text \<open>
  The entity type and the image type are strings, on which \<^verbatim>\<open>==\<close> is equality of strings.
  The three \<^verbatim>\<open>existsSync\<close> probes run in the order of the source and stop at the first
  that succeeds. Nothing in this function can raise.
\<close>

definition getImageUrl :: "env \<Rightarrow> string \<Rightarrow> string \<Rightarrow> jsval \<Rightarrow> jsval \<Rightarrow> jsval \<times> trace" where
  "getImageUrl e entityType imageType ident variationId =
     (if imageType = THUMB \<or> imageType = MEDIUM \<or> imageType = FULL then
        (let imageId = image_id ident variationId;
             pathPrefix = ''./public/images/'' @ entityType @ ''s/'' @ FULL @ ''/'' @ to_string imageId
         in if existsSync e (pathPrefix @ ''.png'') then
              (JStr (''/images/'' @ entityType @ ''s/'' @ imageType @ ''/'' @ to_string imageId @ ''.png''),
               [ExistsSync (pathPrefix @ ''.png'')])
            else if existsSync e (pathPrefix @ ''.jpg'') then
              (JStr (''/images/'' @ entityType @ ''s/'' @ imageType @ ''/'' @ to_string imageId @ ''.jpg''),
               [ExistsSync (pathPrefix @ ''.png''), ExistsSync (pathPrefix @ ''.jpg'')])
            else if existsSync e (pathPrefix @ ''.jpeg'') then
              (JStr (''/images/'' @ entityType @ ''s/'' @ imageType @ ''/'' @ to_string imageId @ ''.jpeg''),
               [ExistsSync (pathPrefix @ ''.png''), ExistsSync (pathPrefix @ ''.jpg''),
                ExistsSync (pathPrefix @ ''.jpeg'')])
            else
              (JUndefined,
               [ExistsSync (pathPrefix @ ''.png''), ExistsSync (pathPrefix @ ''.jpg''),
                ExistsSync (pathPrefix @ ''.jpeg'')]))
      else (JUndefined, []))"

section \<open>computeStaticAssetUrl\<close>

text \<open>
  \<^verbatim>\<open>const hash = computedHash ? computedHash : createFileHash(...)\<close>: an error raised by
  \<^verbatim>\<open>createFileHash\<close> leaves the function before the test of \<^verbatim>\<open>hash\<close>.
\<close>

definition computeStaticAssetUrl :: "env \<Rightarrow> jsval \<Rightarrow> jsval \<Rightarrow> jsval outcome" where
  "computeStaticAssetUrl e inputUrl computedHash =
     (case inputUrl of
        JStr u \<Rightarrow>
          and_then
            (if truthy computedHash then (Inr computedHash, [])
             else createFileHash e (path_join [process_cwd e, ''public'', u]))
            (\<lambda>hash. if truthy hash then (Inr (JStr (addHashToUrl u hash)), [])
                    else (Inr (JStr u), []))
      | _ \<Rightarrow> (Inr JUndefined, []))"

section \<open>getEntityImageData\<close>

record image_data =
  thumb :: jsval
  medium :: jsval
  full :: jsval

text \<open>
  The flag \<open>usePlaceholderImage\<close> is optional: \<open>None\<close> is the call that leaves it out, for
  which the default \<^verbatim>\<open>true\<close> applies. The result \<open>None\<close> is the bare \<^verbatim>\<open>return\<close>. The
  properties of the object literal are evaluated in the order written.
\<close>

definition getEntityImageData ::
    "env \<Rightarrow> string \<Rightarrow> jsval \<Rightarrow> jsval \<Rightarrow> bool option \<Rightarrow> image_data option outcome" where
  "getEntityImageData e entityType ident variationId usePlaceholderImage =
     and_then (no_raise (getImageUrl e entityType FULL ident variationId)) (\<lambda>url.
       if \<not> truthy url then
         (if (case usePlaceholderImage of None \<Rightarrow> True | Some b \<Rightarrow> b) then
            (Inr (Some \<lparr>thumb = JStr (getImageNotFoundFilename THUMB),
                         medium = JStr (getImageNotFoundFilename MEDIUM),
                         full = JStr (getImageNotFoundFilename FULL)\<rparr>), [])
          else (Inr None, []))
       else
         and_then (createFileHash e (path_join [process_cwd e, ''public'', to_string url])) (\<lambda>hash.
         and_then (no_raise (getImageUrl e entityType THUMB ident variationId)) (\<lambda>thumbUrl.
         and_then (computeStaticAssetUrl e thumbUrl hash) (\<lambda>thumbResult.
         and_then (no_raise (getImageUrl e entityType MEDIUM ident variationId)) (\<lambda>mediumUrl.
         and_then (computeStaticAssetUrl e mediumUrl hash) (\<lambda>mediumResult.
         and_then (no_raise (getImageUrl e entityType FULL ident variationId)) (\<lambda>fullUrl.
         and_then (computeStaticAssetUrl e fullUrl hash) (\<lambda>fullResult.
           (Inr (Some \<lparr>thumb = thumbResult, medium = mediumResult, full = fullResult\<rparr>),
            [])))))))))"

section \<open>getEntityUrl\<close>

definition getEntityUrl :: "string \<Rightarrow> jsval \<Rightarrow> string" where
  "getEntityUrl entityType ident = ''/'' @ entityType @ ''/'' @ to_string ident"

section \<open>getCacheBustedUrl and the static cache\<close>

text \<open>
  \<^verbatim>\<open>staticCache\<close> is an object literal: its own properties are a map from property keys to
  values, and a key it does not own is looked up in \<^verbatim>\<open>Object.prototype\<close>. The properties
  found there are functions and objects; the model records only which name was found.
  An assignment creates or overwrites an own property, except that assigning to
  \<^verbatim>\<open>__proto__\<close>, when the object does not own a property of that name, calls the setter
  inherited from \<^verbatim>\<open>Object.prototype\<close>, which ignores a primitive value.
\<close>

type_synonym staticCache = "string \<rightharpoonup> jsval"

text \<open>\<^verbatim>\<open>const staticCache = {};\<close> The cache of a process that has made no call yet.\<close>

definition initial_cache :: staticCache where
  "initial_cache = Map.empty"

definition object_prototype_names :: "string list" where
  "object_prototype_names =
     [''constructor'', ''__defineGetter__'', ''__defineSetter__'', ''hasOwnProperty'',
      ''__lookupGetter__'', ''__lookupSetter__'', ''isPrototypeOf'', ''propertyIsEnumerable'',
      ''toString'', ''valueOf'', ''__proto__'', ''toLocaleString'']"

datatype property = Value jsval | Inherited string

fun truthy_property :: "property \<Rightarrow> bool" where
  "truthy_property (Value v) = truthy v"
| "truthy_property (Inherited name) = True"

definition cache_get :: "staticCache \<Rightarrow> jsval \<Rightarrow> property" where
  "cache_get cache k =
     (case cache (to_string k) of
        Some v \<Rightarrow> Value v
      | None \<Rightarrow>
          if to_string k \<in> set object_prototype_names then Inherited (to_string k)
          else Value JUndefined)"

definition cache_set :: "staticCache \<Rightarrow> jsval \<Rightarrow> jsval \<Rightarrow> staticCache" where
  "cache_set cache k v =
     (if to_string k = ''__proto__'' \<and> cache ''__proto__'' = None then cache
      else cache(to_string k \<mapsto> v))"

text \<open>
  When \<^verbatim>\<open>computeStaticAssetUrl\<close> raises, the assignment to the cache is not reached: the
  error leaves \<open>getCacheBustedUrl\<close> and the cache is as it was.
\<close>

definition getCacheBustedUrl ::
    "env \<Rightarrow> staticCache \<Rightarrow> jsval \<Rightarrow> (error + property) \<times> staticCache \<times> trace" where
  "getCacheBustedUrl e cache inputUrl =
     (if truthy_property (cache_get cache inputUrl) then
        (Inr (cache_get cache inputUrl), cache, [])
      else
        (case computeStaticAssetUrl e inputUrl JUndefined of
           (Inl err, t) \<Rightarrow> (Inl err, cache, t)
         | (Inr result, t) \<Rightarrow>
             (let cache = cache_set cache inputUrl result
              in (Inr (cache_get cache inputUrl), cache, t))))"

section \<open>An example installation\<close>

text \<open>
  A small installation on which the operations are evaluated below. The working directory is
  \<^verbatim>\<open>/srv/villagerdb\<close>. Item 5 has a JPEG image only, item 7 has a PNG and a JPG image, item 9
  has a thumbnail but no full image, and there are two style sheets, one of which the process
  may not read. The digest function agrees with MD5 on the two file contents in use.
\<close>

definition example_entries :: "string list \<rightharpoonup> node" where
  "example_entries =
     [[''srv''] \<mapsto> Directory,
      [''srv'', ''villagerdb''] \<mapsto> Directory,
      [''srv'', ''villagerdb'', ''public''] \<mapsto> Directory,
      [''srv'', ''villagerdb'', ''public'', ''images''] \<mapsto> Directory,
      [''srv'', ''villagerdb'', ''public'', ''images'', ''items''] \<mapsto> Directory,
      [''srv'', ''villagerdb'', ''public'', ''images'', ''items'', ''full''] \<mapsto> Directory,
      [''srv'', ''villagerdb'', ''public'', ''images'', ''items'', ''thumb''] \<mapsto> Directory,
      [''srv'', ''villagerdb'', ''public'', ''stylesheets''] \<mapsto> Directory,
      [''srv'', ''villagerdb'', ''public'', ''images'', ''items'', ''full'', ''5.jpeg''] \<mapsto> File ''abc'',
      [''srv'', ''villagerdb'', ''public'', ''images'', ''items'', ''full'', ''7.png''] \<mapsto> File [],
      [''srv'', ''villagerdb'', ''public'', ''images'', ''items'', ''full'', ''7.jpg''] \<mapsto> File ''abc'',
      [''srv'', ''villagerdb'', ''public'', ''images'', ''items'', ''thumb'', ''9.png''] \<mapsto> File ''abc'',
      [''srv'', ''villagerdb'', ''public'', ''stylesheets'', ''style.css''] \<mapsto> File ''abc'',
      [''srv'', ''villagerdb'', ''public'', ''stylesheets'', ''private.css''] \<mapsto> Unreadable]"

definition example_md5 :: "string \<Rightarrow> 128 word" where
  "example_md5 s =
     (if s = ''abc'' then 0x900150983cd24fb0d6963f7d28e17f72
      else 0xd41d8cd98f00b204e9800998ecf8427e)"

definition example_env :: env where
  "example_env =
     \<lparr>cwd_below_root = ''srv/villagerdb'', entries = example_entries, md5 = example_md5\<rparr>"

text \<open>An installation whose working directory has no \<^verbatim>\<open>public\<close> directory.\<close>

definition empty_env :: env where
  "empty_env =
     \<lparr>cwd_below_root = ''srv/villagerdb'',
      entries = [[''srv''] \<mapsto> Directory, [''srv'', ''villagerdb''] \<mapsto> Directory],
      md5 = example_md5\<rparr>"

section \<open>Lists of pieces: splitting and joining\<close>

declare push_parts.simps [simp del]
declare decimal.simps [simp del]

lemma split_on_nonempty: "split_on c s \<noteq> []"
  by (induction s) (auto split: list.splits)

lemma join_with_Cons: "xs \<noteq> [] \<Longrightarrow> join_with sep (x # xs) = x @ sep @ join_with sep xs"
  by (cases xs) auto

lemma join_with_snoc: "xs \<noteq> [] \<Longrightarrow> join_with sep (xs @ [x]) = join_with sep xs @ sep @ x"
  by (induction sep xs rule: join_with.induct) auto

lemma join_with_append:
  "xs \<noteq> [] \<Longrightarrow> ys \<noteq> [] \<Longrightarrow> join_with sep (xs @ ys) = join_with sep xs @ sep @ join_with sep ys"
  by (induction sep xs rule: join_with.induct) (auto simp: join_with_Cons)

lemma join_split: "join_with [c] (split_on c s) = s"
proof (induction s)
  case Nil
  show ?case by simp
next
  case (Cons x xs)
  show ?case
  proof (cases "x = c")
    case True
    with Cons show ?thesis by (simp add: join_with_Cons split_on_nonempty)
  next
    case False
    obtain y ys where sp: "split_on c xs = y # ys"
      using split_on_nonempty [of c xs] by (cases "split_on c xs") auto
    with Cons False show ?thesis by (cases ys) auto
  qed
qed

lemma split_on_append: "split_on c (a @ c # b) = split_on c a @ split_on c b"
proof (induction a)
  case Nil
  show ?case by simp
next
  case (Cons x xs)
  obtain y ys where sp: "split_on c xs = y # ys"
    using split_on_nonempty [of c xs] by (cases "split_on c xs") auto
  with Cons show ?case by auto
qed

lemma split_on_no_sep: "c \<notin> set s \<Longrightarrow> split_on c s = [s]"
  by (induction s) auto

lemma split_on_pieces: "p \<in> set (split_on c s) \<Longrightarrow> c \<notin> set p"
proof (induction s arbitrary: p)
  case Nil
  then show ?case by simp
next
  case (Cons x xs)
  obtain y ys where sp: "split_on c xs = y # ys"
    using split_on_nonempty [of c xs] by (cases "split_on c xs") auto
  show ?case
  proof (cases "x = c")
    case True
    with Cons show ?thesis by auto
  next
    case False
    with Cons.prems sp have "p = x # y \<or> p \<in> set ys" by auto
    moreover have "c \<notin> set y" using Cons.IH [of y] sp by simp
    moreover have "p \<in> set ys \<Longrightarrow> c \<notin> set p" using Cons.IH [of p] sp by simp
    ultimately show ?thesis using False by auto
  qed
qed

lemma split_on_sep_length: "c \<in> set s \<Longrightarrow> 2 \<le> length (split_on c s)"
proof (induction s)
  case Nil
  then show ?case by simp
next
  case (Cons x xs)
  obtain y ys where sp: "split_on c xs = y # ys"
    using split_on_nonempty [of c xs] by (cases "split_on c xs") auto
  show ?case
  proof (cases "x = c")
    case True
    then show ?thesis by (simp add: sp)
  next
    case False
    with Cons show ?thesis by (auto simp: sp)
  qed
qed

lemma push_parts_eq: "push_parts ps i acc = acc @ map JStr (drop i (butlast ps))"
proof (induction ps i acc rule: push_parts.induct)
  case (1 fileParts i newFileParts)
  show ?case
  proof (cases "i < length fileParts - 1")
    case True
    then have "drop i (butlast fileParts) = fileParts ! i # drop (Suc i) (butlast fileParts)"
      by (simp add: Cons_nth_drop_Suc [symmetric] nth_butlast)
    with True "1.IH" show ?thesis
      by (subst push_parts.simps) simp
  next
    case False
    then show ?thesis
      by (subst push_parts.simps) simp
  qed
qed

lemma addHashToUrl_parts:
  "addHashToUrl u h =
     join_with ''.'' (butlast (split_on CHR ''.'' u) @ [join_elem h, last (split_on CHR ''.'' u)])"
proof -
  have "split_on CHR ''.'' u ! (length (split_on CHR ''.'' u) - 1) = last (split_on CHR ''.'' u)"
    using split_on_nonempty [of "CHR ''.''" u] by (simp add: last_conv_nth)
  then show ?thesis
    by (simp add: addHashToUrl_def array_join_def push_parts_eq Let_def comp_def)
qed

lemma addHashToUrl_no_dot:
  "CHR ''.'' \<notin> set u \<Longrightarrow> addHashToUrl u (JStr h) = h @ ''.'' @ u"
  by (simp add: addHashToUrl_parts split_on_no_sep)

lemma addHashToUrl_dot:
  assumes "CHR ''.'' \<in> set u"
  shows "addHashToUrl u (JStr h) =
     join_with ''.'' (butlast (split_on CHR ''.'' u)) @ ''.'' @ h @ ''.'' @ last (split_on CHR ''.'' u)"
proof -
  have "butlast (split_on CHR ''.'' u) \<noteq> []"
    using split_on_sep_length [OF assms] by (cases "split_on CHR ''.'' u" rule: rev_cases) auto
  then show ?thesis
    by (simp add: addHashToUrl_parts join_with_append)
qed


lemma addHashToUrl_string:
  "addHashToUrl u (JStr h) =
     join_with ''.'' (butlast (split_on CHR ''.'' u) @ [h]) @ ''.'' @ last (split_on CHR ''.'' u)"
  using join_with_snoc [of "butlast (split_on CHR ''.'' u) @ [h]" "''.''" "last (split_on CHR ''.'' u)"]
  by (simp add: addHashToUrl_parts)

lemma last_split_no_sep: "c \<notin> set (last (split_on c s))"
  using split_on_pieces [of "last (split_on c s)" c s] split_on_nonempty [of c s] by simp

lemma split_on_before_last:
  "c \<notin> set l \<Longrightarrow> split_on c (x @ c # l) = split_on c x @ [l]"
  by (simp add: split_on_append split_on_no_sep)

lemma addHashToUrl_applied_twice:
  "addHashToUrl (addHashToUrl u (JStr h1)) (JStr h2) =
     join_with ''.'' (butlast (split_on CHR ''.'' u) @ [h1, h2, last (split_on CHR ''.'' u)])"
proof -
  define B where "B = butlast (split_on CHR ''.'' u)"
  define L where "L = last (split_on CHR ''.'' u)"
  define X where "X = join_with ''.'' (B @ [h1])"
  have L: "CHR ''.'' \<notin> set L"
    unfolding L_def by (rule last_split_no_sep)
  have r1: "addHashToUrl u (JStr h1) = X @ CHR ''.'' # L"
    by (simp add: addHashToUrl_string B_def L_def X_def)
  have sp: "split_on CHR ''.'' (X @ CHR ''.'' # L) = split_on CHR ''.'' X @ [L]"
    using L by (rule split_on_before_last)
  have "addHashToUrl (X @ CHR ''.'' # L) (JStr h2) =
          join_with ''.'' (split_on CHR ''.'' X @ [h2]) @ ''.'' @ L"
    by (simp add: addHashToUrl_string sp)
  also have "join_with ''.'' (split_on CHR ''.'' X @ [h2]) = X @ ''.'' @ h2"
    using join_split [of "CHR ''.''" X] by (simp add: join_with_snoc split_on_nonempty)
  also have "(X @ ''.'' @ h2) @ ''.'' @ L = join_with ''.'' (B @ [h1, h2, L])"
  proof -
    have "join_with ''.'' ((B @ [h1, h2]) @ [L]) = join_with ''.'' (B @ [h1, h2]) @ ''.'' @ L"
      by (rule join_with_snoc) simp
    moreover have "join_with ''.'' ((B @ [h1]) @ [h2]) = join_with ''.'' (B @ [h1]) @ ''.'' @ h2"
      by (rule join_with_snoc) simp
    ultimately show ?thesis by (simp add: X_def)
  qed
  finally show ?thesis by (simp add: r1 B_def L_def)
qed

lemma addHashToUrl_applied_twice_length:
  "length (addHashToUrl (addHashToUrl u (JStr h1)) (JStr h2)) =
     length (addHashToUrl u (JStr h1)) + length h2 + 1"
proof -
  let ?B = "butlast (split_on CHR ''.'' u)" and ?L = "last (split_on CHR ''.'' u)"
  have a: "join_with ''.'' ((?B @ [h1, h2]) @ [?L]) = join_with ''.'' (?B @ [h1, h2]) @ ''.'' @ ?L"
    by (rule join_with_snoc) simp
  have b: "join_with ''.'' ((?B @ [h1]) @ [h2]) = join_with ''.'' (?B @ [h1]) @ ''.'' @ h2"
    by (rule join_with_snoc) simp
  have "length (addHashToUrl (addHashToUrl u (JStr h1)) (JStr h2)) =
          length (join_with ''.'' (?B @ [h1, h2, ?L]))"
    by (simp only: addHashToUrl_applied_twice)
  also have "\<dots> = length (join_with ''.'' (?B @ [h1])) + length ?L + length h2 + 2"
    using a b by simp
  also have "\<dots> = length (addHashToUrl u (JStr h1)) + length h2 + 1"
    by (simp add: addHashToUrl_string)
  finally show ?thesis .
qed

section \<open>Properties of addHashToUrl\<close>

text \<open>
  C4. For every input string \<open>u\<close> that contains a dot and every hash \<open>h\<close> (empty or not),
  \<open>addHashToUrl u h\<close> is: the pieces of \<open>u\<close> between its dots, all but the last joined
  again by dots, then a dot and \<open>h\<close>, then a dot and the last piece.
\<close>

theorem addHashToUrl_splices_hash:
  assumes "CHR ''.'' \<in> set u"
  shows "addHashToUrl u (JStr h) =
           join_with ''.'' (butlast (split_on CHR ''.'' u)) @ ''.'' @ h @ ''.'' @
           last (split_on CHR ''.'' u)"
  using assms by (rule addHashToUrl_dot)

theorem addHashToUrl_splices_hash_witness:
  "CHR ''.'' \<in> set ''a/b/name.ext'' \<and>
   addHashToUrl ''a/b/name.ext'' (JStr ''h1234ab'') = ''a/b/name.h1234ab.ext''"
proof -
  have dot: "CHR ''.'' \<in> set ''a/b/name.ext''" by simp
  have "addHashToUrl ''a/b/name.ext'' (JStr ''h1234ab'') =
          join_with ''.'' (butlast (split_on CHR ''.'' ''a/b/name.ext'')) @ ''.'' @ ''h1234ab'' @
          ''.'' @ last (split_on CHR ''.'' ''a/b/name.ext'')"
    by (rule addHashToUrl_splices_hash [OF dot])
  also have "\<dots> = ''a/b/name.h1234ab.ext''" by simp
  finally show ?thesis using dot by simp
qed

text \<open>
  C10. For every input string \<open>u\<close> without a dot and every hash \<open>h\<close>, \<open>addHashToUrl u h\<close>
  is \<open>h\<close>, a dot, and then \<open>u\<close>: the hash comes first and the whole input is the last piece.
  The function is total, so it returns a string for every such input.
\<close>

theorem addHashToUrl_without_dot:
  assumes "CHR ''.'' \<notin> set u"
  shows "addHashToUrl u (JStr h) = h @ ''.'' @ u"
  using assms by (rule addHashToUrl_no_dot)

theorem addHashToUrl_without_dot_witness:
  "CHR ''.'' \<notin> set ''a/b/name'' \<and> addHashToUrl ''a/b/name'' (JStr ''h1234ab'') = ''h1234ab.a/b/name''"
proof -
  have nodot: "CHR ''.'' \<notin> set ''a/b/name''" by simp
  from addHashToUrl_without_dot [OF nodot, of "''h1234ab''"] nodot show ?thesis by simp
qed

text \<open>
  C3, as the code has it. Applying \<open>addHashToUrl\<close> a second time never gives back the result
  of the first application: for every input \<open>u\<close> and hashes \<open>h1\<close>, \<open>h2\<close>, equal or not, the
  result has the pieces of \<open>u\<close> but the last, then \<open>h1\<close>, then \<open>h2\<close>, then the last piece of
  \<open>u\<close>. With the same hash twice, the hash segment is doubled.
\<close>

theorem addHashToUrl_twice:
  "addHashToUrl (addHashToUrl u (JStr h1)) (JStr h2) =
     join_with ''.'' (butlast (split_on CHR ''.'' u) @ [h1, h2, last (split_on CHR ''.'' u)])
   \<and> addHashToUrl (addHashToUrl u (JStr h)) (JStr h) \<noteq> addHashToUrl u (JStr h)"
proof
  show "addHashToUrl (addHashToUrl u (JStr h1)) (JStr h2) =
     join_with ''.'' (butlast (split_on CHR ''.'' u) @ [h1, h2, last (split_on CHR ''.'' u)])"
    by (rule addHashToUrl_applied_twice)
  show "addHashToUrl (addHashToUrl u (JStr h)) (JStr h) \<noteq> addHashToUrl u (JStr h)"
    using addHashToUrl_applied_twice_length [of u h h] by auto
qed

theorem addHashToUrl_twice_witness:
  "addHashToUrl (addHashToUrl ''a/b/name.ext'' (JStr ''h1234ab'')) (JStr ''h99'') =
     ''a/b/name.h1234ab.h99.ext''"
  using addHashToUrl_twice [of "''a/b/name.ext''" "''h1234ab''" "''h99''"] by simp

text \<open>
  C3, as the specification has it, fails: the input \<^verbatim>\<open>a/b/name.ext\<close> contains a dot, and
  applying the function twice with the hash \<^verbatim>\<open>h1234ab\<close> gives a string with two hash
  segments, not the result of the first application.
\<close>

theorem addHashToUrl_not_idempotent:
  "CHR ''.'' \<in> set ''a/b/name.ext'' \<and>
   addHashToUrl ''a/b/name.ext'' (JStr ''h1234ab'') = ''a/b/name.h1234ab.ext'' \<and>
   addHashToUrl (addHashToUrl ''a/b/name.ext'' (JStr ''h1234ab'')) (JStr ''h1234ab'') =
     ''a/b/name.h1234ab.h1234ab.ext'' \<and>
   addHashToUrl (addHashToUrl ''a/b/name.ext'' (JStr ''h1234ab'')) (JStr ''h1234ab'') \<noteq>
     addHashToUrl ''a/b/name.ext'' (JStr ''h1234ab'')"
  by code_simp

text \<open>The example of the specification for \<open>getEntityUrl\<close>.\<close>

lemma getEntityUrl_example: "getEntityUrl ITEM (JNum 42) = ''/item/42''"
  by code_simp

section \<open>Path resolution\<close>









subsection \<open>Following a path\<close>


















text \<open>
  In the example installation: a slash after a regular file and \<^verbatim>\<open>..\<close> after a directory that
  does not exist name nothing, \<^verbatim>\<open>..\<close> after a directory that exists leads back, and
  \<^verbatim>\<open>path.join\<close> removes \<^verbatim>\<open>zzz/..\<close> before the file system sees the path.
\<close>

lemma resolve_examples:
  "stat example_env ''./public/stylesheets/style.css/'' = Inl ENOTDIR
   \<and> stat example_env ''./public/images/zzz/../items/full/5.jpeg'' = Inl ENOENT
   \<and> stat example_env ''./public/images/items/../items/full/5.jpeg'' = Inr (File ''abc'')
   \<and> path_join [process_cwd example_env, ''public'', ''/images/zzz/../items/full/5.jpeg''] =
        ''/srv/villagerdb/public/images/items/full/5.jpeg''
   \<and> stat example_env ''/srv/villagerdb/public'' = Inr Directory
   \<and> stat example_env [] = Inl ENOENT"
  by code_simp

section \<open>The hash of a file\<close>

lemma HASH_LENGTH_pos: "0 < HASH_LENGTH"
  by (simp add: HASH_LENGTH_def)

lemma digest_hex_nonempty: "digest_hex w \<noteq> []"
  by (simp add: digest_hex_def)


lemma createFileHash_stat:
  "createFileHash e p =
     (case stat e p of
        Inl err \<Rightarrow> (Inr JUndefined, [ExistsSync p])
      | Inr (File fileStr) \<Rightarrow>
          (Inr (JStr (take HASH_LENGTH (digest_hex (md5 e fileStr)))),
           [ExistsSync p, ReadFileSync p, Md5Digest fileStr])
      | Inr Directory \<Rightarrow> (Inl EISDIR, [ExistsSync p, ReadFileSync p])
      | Inr Unreadable \<Rightarrow> (Inl EACCES, [ExistsSync p, ReadFileSync p]))"
  by (simp add: createFileHash_def existsSync_def readFileSync_def split: sum.splits node.splits)

lemma and_then_Inr: "and_then (Inr x, t) f = (fst (f x), t @ snd (f x))"
  by (simp add: and_then_def split_def)

lemma and_then_Inl: "and_then (Inl err, t) f = (Inl err, t)"
  by (simp add: and_then_def)

lemma computeStaticAssetUrl_not_string:
  "\<not> is_string v \<Longrightarrow> computeStaticAssetUrl e v computedHash = (Inr JUndefined, [])"
  by (cases v) (simp_all add: computeStaticAssetUrl_def)

lemma computeStaticAssetUrl_given_hash:
  "truthy computedHash \<Longrightarrow>
     computeStaticAssetUrl e (JStr u) computedHash = (Inr (JStr (addHashToUrl u computedHash)), [])"
  by (simp add: computeStaticAssetUrl_def and_then_Inr)

lemma computeStaticAssetUrl_computed:
  "\<not> truthy computedHash \<Longrightarrow>
     computeStaticAssetUrl e (JStr u) computedHash =
     (case stat e (path_join [process_cwd e, ''public'', u]) of
        Inl err \<Rightarrow> (Inr (JStr u), [ExistsSync (path_join [process_cwd e, ''public'', u])])
      | Inr (File fileStr) \<Rightarrow>
          (Inr (JStr (addHashToUrl u (JStr (take HASH_LENGTH (digest_hex (md5 e fileStr)))))),
           [ExistsSync (path_join [process_cwd e, ''public'', u]),
            ReadFileSync (path_join [process_cwd e, ''public'', u]), Md5Digest fileStr])
      | Inr Directory \<Rightarrow>
          (Inl EISDIR,
           [ExistsSync (path_join [process_cwd e, ''public'', u]),
            ReadFileSync (path_join [process_cwd e, ''public'', u])])
      | Inr Unreadable \<Rightarrow>
          (Inl EACCES,
           [ExistsSync (path_join [process_cwd e, ''public'', u]),
            ReadFileSync (path_join [process_cwd e, ''public'', u])]))"
  by (simp add: computeStaticAssetUrl_def createFileHash_stat and_then_Inr and_then_Inl
      HASH_LENGTH_pos digest_hex_nonempty split: sum.split node.split)

section \<open>Properties of getImageUrl\<close>

text \<open>
  C1. For a size among \<open>THUMB\<close>, \<open>MEDIUM\<close> and \<open>FULL\<close>, \<open>getImageUrl\<close> makes the same
  probes as for \<open>FULL\<close>, each of them \<^verbatim>\<open>existsSync\<close> on a path
  \<^verbatim>\<open>./public/images/<entityType>s/full/<imageId>.<ext>\<close>, none under the directory of another
  size. Either one of these full-size files exists, and the result is the URL with the requested
  size in its path and the extension that matched for \<open>FULL\<close>, or none exists and there is no
  result.
\<close>

theorem getImageUrl_probes_full_only:
  assumes "imageType = THUMB \<or> imageType = MEDIUM \<or> imageType = FULL"
  shows "let imageId = to_string (image_id ident variationId);
             pathPrefix = ''./public/images/'' @ entityType @ ''s/full/'' @ imageId
         in snd (getImageUrl e entityType imageType ident variationId) =
              snd (getImageUrl e entityType FULL ident variationId)
          \<and> set (snd (getImageUrl e entityType imageType ident variationId)) \<subseteq>
              {ExistsSync (pathPrefix @ ''.png''), ExistsSync (pathPrefix @ ''.jpg''),
               ExistsSync (pathPrefix @ ''.jpeg'')}
          \<and> ((\<exists>ext \<in> {''.png'', ''.jpg'', ''.jpeg''}.
                 existsSync e (pathPrefix @ ext) \<and>
                 fst (getImageUrl e entityType FULL ident variationId) =
                   JStr (''/images/'' @ entityType @ ''s/full/'' @ imageId @ ext) \<and>
                 fst (getImageUrl e entityType imageType ident variationId) =
                   JStr (''/images/'' @ entityType @ ''s/'' @ imageType @ ''/'' @ imageId @ ext))
              \<or> ((\<forall>ext \<in> {''.png'', ''.jpg'', ''.jpeg''}. \<not> existsSync e (pathPrefix @ ext)) \<and>
                  fst (getImageUrl e entityType FULL ident variationId) = JUndefined \<and>
                  fst (getImageUrl e entityType imageType ident variationId) = JUndefined))"
  using assms by (auto simp: getImageUrl_def Let_def FULL_def)

theorem getImageUrl_probes_full_only_witness:
  "(THUMB = THUMB \<or> THUMB = MEDIUM \<or> THUMB = FULL)
   \<and> snd (getImageUrl example_env ''item'' THUMB (JNum 5) JUndefined) =
       snd (getImageUrl example_env ''item'' FULL (JNum 5) JUndefined)
   \<and> set (snd (getImageUrl example_env ''item'' THUMB (JNum 5) JUndefined)) \<subseteq>
       {ExistsSync ''./public/images/items/full/5.png'', ExistsSync ''./public/images/items/full/5.jpg'',
        ExistsSync ''./public/images/items/full/5.jpeg''}
   \<and> fst (getImageUrl example_env ''item'' THUMB (JNum 5) JUndefined) = JStr ''/images/items/thumb/5.jpeg''
   \<and> fst (getImageUrl example_env ''item'' THUMB (JNum 9) JUndefined) = JUndefined"
proof -
  have sz: "THUMB = THUMB \<or> THUMB = MEDIUM \<or> THUMB = FULL" by simp
  have id5: "to_string (image_id (JNum 5) JUndefined) = ''5''" by code_simp
  have id9: "to_string (image_id (JNum 9) JUndefined) = ''9''" by code_simp
  have full5: "fst (getImageUrl example_env ''item'' FULL (JNum 5) JUndefined) = JStr ''/images/items/full/5.jpeg''"
    by code_simp
  have probes9: "\<forall>ext \<in> {''.png'', ''.jpg'', ''.jpeg''}.
                   \<not> existsSync example_env (''./public/images/'' @ ''item'' @ ''s/full/'' @ ''9'' @ ext)"
    by code_simp
  from getImageUrl_probes_full_only [OF sz, of "JNum 5" JUndefined "''item''" example_env] full5
  have five: "snd (getImageUrl example_env ''item'' THUMB (JNum 5) JUndefined) =
       snd (getImageUrl example_env ''item'' FULL (JNum 5) JUndefined)
   \<and> set (snd (getImageUrl example_env ''item'' THUMB (JNum 5) JUndefined)) \<subseteq>
       {ExistsSync ''./public/images/items/full/5.png'', ExistsSync ''./public/images/items/full/5.jpg'',
        ExistsSync ''./public/images/items/full/5.jpeg''}
   \<and> fst (getImageUrl example_env ''item'' THUMB (JNum 5) JUndefined) = JStr ''/images/items/thumb/5.jpeg''"
    by (auto simp: Let_def id5 THUMB_def)
  from getImageUrl_probes_full_only [OF sz, of "JNum 9" JUndefined "''item''" example_env] probes9
  have nine: "fst (getImageUrl example_env ''item'' THUMB (JNum 9) JUndefined) = JUndefined"
    by (auto simp: Let_def id9)
  from five nine sz show ?thesis by blast
qed

text \<open>
  C2. For a size among \<open>THUMB\<close>, \<open>MEDIUM\<close> and \<open>FULL\<close>, \<open>getImageUrl\<close> probes the extensions
  \<^verbatim>\<open>.png\<close>, \<^verbatim>\<open>.jpg\<close>, \<^verbatim>\<open>.jpeg\<close> in this order, stops at the first whose full-size file exists
  and returns the URL with that extension. If both the PNG and the JPG file exist, the URL ends in
  \<^verbatim>\<open>.png\<close>; if only the JPEG file exists, it ends in \<^verbatim>\<open>.jpeg\<close>. (The comment above the
  function in the source names the order JPEG, PNG; the statements of the function run in the
  order proved here.)
\<close>

theorem getImageUrl_extension_order:
  assumes "imageType = THUMB \<or> imageType = MEDIUM \<or> imageType = FULL"
  shows "let imageId = to_string (image_id ident variationId);
             pathPrefix = ''./public/images/'' @ entityType @ ''s/full/'' @ imageId;
             url = (\<lambda>ext. JStr (''/images/'' @ entityType @ ''s/'' @ imageType @ ''/'' @ imageId @ ext));
             missing = (\<lambda>ext. \<not> existsSync e (pathPrefix @ ext));
             extensions = [''.png'', ''.jpg'', ''.jpeg'']
         in fst (getImageUrl e entityType imageType ident variationId) =
              (case find (\<lambda>ext. existsSync e (pathPrefix @ ext)) extensions of
                 Some ext \<Rightarrow> url ext | None \<Rightarrow> JUndefined)
          \<and> snd (getImageUrl e entityType imageType ident variationId) =
              map (\<lambda>ext. ExistsSync (pathPrefix @ ext))
                (takeWhile missing extensions @ take 1 (dropWhile missing extensions))
          \<and> (existsSync e (pathPrefix @ ''.png'') \<and> existsSync e (pathPrefix @ ''.jpg'') \<longrightarrow>
               fst (getImageUrl e entityType imageType ident variationId) = url ''.png'')
          \<and> (\<not> existsSync e (pathPrefix @ ''.png'') \<and> \<not> existsSync e (pathPrefix @ ''.jpg'') \<and>
               existsSync e (pathPrefix @ ''.jpeg'') \<longrightarrow>
               fst (getImageUrl e entityType imageType ident variationId) = url ''.jpeg'')"
  using assms by (auto simp: getImageUrl_def Let_def FULL_def)

theorem getImageUrl_extension_order_witness:
  "(FULL = THUMB \<or> FULL = MEDIUM \<or> FULL = FULL)
   \<and> existsSync example_env ''./public/images/items/full/7.png''
   \<and> existsSync example_env ''./public/images/items/full/7.jpg''
   \<and> fst (getImageUrl example_env ''item'' FULL (JNum 7) JUndefined) = JStr ''/images/items/full/7.png''
   \<and> snd (getImageUrl example_env ''item'' FULL (JNum 7) JUndefined) =
        [ExistsSync ''./public/images/items/full/7.png'']
   \<and> \<not> existsSync example_env ''./public/images/items/full/5.png''
   \<and> \<not> existsSync example_env ''./public/images/items/full/5.jpg''
   \<and> existsSync example_env ''./public/images/items/full/5.jpeg''
   \<and> fst (getImageUrl example_env ''item'' FULL (JNum 5) JUndefined) = JStr ''/images/items/full/5.jpeg''
   \<and> snd (getImageUrl example_env ''item'' FULL (JNum 5) JUndefined) =
        [ExistsSync ''./public/images/items/full/5.png'', ExistsSync ''./public/images/items/full/5.jpg'',
         ExistsSync ''./public/images/items/full/5.jpeg'']"
proof -
  have sz: "FULL = THUMB \<or> FULL = MEDIUM \<or> FULL = FULL" by simp
  have id5: "to_string (image_id (JNum 5) JUndefined) = ''5''" by code_simp
  have id7: "to_string (image_id (JNum 7) JUndefined) = ''7''" by code_simp
  have e7: "existsSync example_env ''./public/images/items/full/7.png''"
           "existsSync example_env ''./public/images/items/full/7.jpg''"
    by code_simp+
  have e5: "\<not> existsSync example_env ''./public/images/items/full/5.png''"
           "\<not> existsSync example_env ''./public/images/items/full/5.jpg''"
           "existsSync example_env ''./public/images/items/full/5.jpeg''"
    by code_simp+
  from getImageUrl_extension_order [OF sz, of "JNum 7" JUndefined "''item''" example_env] e7
  have seven: "fst (getImageUrl example_env ''item'' FULL (JNum 7) JUndefined) = JStr ''/images/items/full/7.png''
     \<and> snd (getImageUrl example_env ''item'' FULL (JNum 7) JUndefined) =
        [ExistsSync ''./public/images/items/full/7.png'']"
    by (simp add: Let_def id7 FULL_def)
  from getImageUrl_extension_order [OF sz, of "JNum 5" JUndefined "''item''" example_env] e5
  have five: "fst (getImageUrl example_env ''item'' FULL (JNum 5) JUndefined) = JStr ''/images/items/full/5.jpeg''
     \<and> snd (getImageUrl example_env ''item'' FULL (JNum 5) JUndefined) =
        [ExistsSync ''./public/images/items/full/5.png'', ExistsSync ''./public/images/items/full/5.jpg'',
         ExistsSync ''./public/images/items/full/5.jpeg'']"
    by (simp add: Let_def id5 FULL_def)
  from seven five e7 e5 show ?thesis by simp
qed

text \<open>
  C9. For a size tag other than \<^verbatim>\<open>thumb\<close>, \<^verbatim>\<open>medium\<close> and \<^verbatim>\<open>full\<close>, \<open>getImageUrl\<close> returns
  \<^verbatim>\<open>undefined\<close> and makes no call to the file system, whatever files exist.
\<close>

theorem getImageUrl_unrecognized_size:
  assumes "imageType \<noteq> ''thumb''" and "imageType \<noteq> ''medium''" and "imageType \<noteq> ''full''"
  shows "getImageUrl e entityType imageType ident variationId = (JUndefined, [])"
  using assms by (simp add: getImageUrl_def THUMB_def MEDIUM_def FULL_def)

theorem getImageUrl_unrecognized_size_witness:
  "''huge'' \<noteq> ''thumb'' \<and> ''huge'' \<noteq> ''medium'' \<and> ''huge'' \<noteq> ''full''
   \<and> existsSync example_env ''./public/images/items/full/7.png''
   \<and> getImageUrl example_env ''item'' ''huge'' (JNum 7) JUndefined = (JUndefined, [])"
proof -
  have "existsSync example_env ''./public/images/items/full/7.png''"
    by code_simp
  moreover have "getImageUrl example_env ''item'' ''huge'' (JNum 7) JUndefined = (JUndefined, [])"
    by (rule getImageUrl_unrecognized_size) simp_all
  ultimately show ?thesis by simp
qed

section \<open>Properties of computeStaticAssetUrl\<close>

text \<open>
  C8, as the code has it. For an input that is not a string, \<open>computeStaticAssetUrl\<close> returns
  \<^verbatim>\<open>undefined\<close> and makes no call to the file system. For a string \<open>u\<close>: with a truthy
  precomputed hash, the result is \<open>u\<close> with that hash spliced in, again without a call to the
  file system; without one, it depends on what \<^verbatim>\<open>path.join(process.cwd(), 'public', u)\<close>
  names. A regular file: the result is \<open>u\<close> with the hash of that file spliced in. Nothing:
  the result is \<open>u\<close> unchanged. A directory, or a file that cannot be read:
  \<^verbatim>\<open>fs.readFileSync\<close> raises (\<^verbatim>\<open>EISDIR\<close>, \<^verbatim>\<open>EACCES\<close>) and the call ends with that error.
\<close>

theorem computeStaticAssetUrl_outcomes:
  "(\<not> is_string v \<longrightarrow> computeStaticAssetUrl e v computedHash = (Inr JUndefined, []))
 \<and> (truthy computedHash \<longrightarrow>
      computeStaticAssetUrl e (JStr u) computedHash =
        (Inr (JStr (addHashToUrl u computedHash)), []))
 \<and> (\<not> truthy computedHash \<longrightarrow>
      fst (computeStaticAssetUrl e (JStr u) computedHash) =
        (case stat e (path_join [process_cwd e, ''public'', u]) of
           Inr (File fileStr) \<Rightarrow>
             Inr (JStr (addHashToUrl u (JStr (take 7 (digest_hex (md5 e fileStr))))))
         | Inr Directory \<Rightarrow> Inl EISDIR
         | Inr Unreadable \<Rightarrow> Inl EACCES
         | Inl err \<Rightarrow> Inr (JStr u)))"
  by (simp add: computeStaticAssetUrl_not_string computeStaticAssetUrl_given_hash
      computeStaticAssetUrl_computed HASH_LENGTH_def split: sum.split node.split)

theorem computeStaticAssetUrl_outcomes_witness:
  "\<not> is_string (JNum 5) \<and> computeStaticAssetUrl example_env (JNum 5) JUndefined = (Inr JUndefined, [])
 \<and> truthy (JStr ''h1234ab'')
 \<and> computeStaticAssetUrl example_env (JStr ''/stylesheets/style.css'') (JStr ''h1234ab'') =
      (Inr (JStr ''/stylesheets/style.h1234ab.css''), [])
 \<and> \<not> truthy JUndefined
 \<and> stat example_env (path_join [process_cwd example_env, ''public'', ''/stylesheets/style.css'']) =
      Inr (File ''abc'')
 \<and> fst (computeStaticAssetUrl example_env (JStr ''/stylesheets/style.css'') JUndefined) =
      Inr (JStr ''/stylesheets/style.9001509.css'')
 \<and> stat example_env (path_join [process_cwd example_env, ''public'', ''/stylesheets/missing.css'']) =
      Inl ENOENT
 \<and> fst (computeStaticAssetUrl example_env (JStr ''/stylesheets/missing.css'') JUndefined) =
      Inr (JStr ''/stylesheets/missing.css'')
 \<and> stat example_env (path_join [process_cwd example_env, ''public'', ''/stylesheets/style.css/'']) =
      Inl ENOTDIR
 \<and> fst (computeStaticAssetUrl example_env (JStr ''/stylesheets/style.css/'') JUndefined) =
      Inr (JStr ''/stylesheets/style.css/'')
 \<and> stat example_env (path_join [process_cwd example_env, ''public'', ''/stylesheets'']) =
      Inr Directory
 \<and> fst (computeStaticAssetUrl example_env (JStr ''/stylesheets'') JUndefined) = Inl EISDIR
 \<and> stat example_env (path_join [process_cwd example_env, ''public'', ''/stylesheets/private.css'']) =
      Inr Unreadable
 \<and> fst (computeStaticAssetUrl example_env (JStr ''/stylesheets/private.css'') JUndefined) = Inl EACCES"
proof -
  have a: "computeStaticAssetUrl example_env (JNum 5) JUndefined = (Inr JUndefined, [])"
    using computeStaticAssetUrl_outcomes [of "JNum 5" example_env JUndefined] by simp
  have b: "computeStaticAssetUrl example_env (JStr ''/stylesheets/style.css'') (JStr ''h1234ab'') =
      (Inr (JStr (addHashToUrl ''/stylesheets/style.css'' (JStr ''h1234ab''))), [])"
    using computeStaticAssetUrl_outcomes [of _ example_env "JStr ''h1234ab''" "''/stylesheets/style.css''"]
    by simp
  have b': "addHashToUrl ''/stylesheets/style.css'' (JStr ''h1234ab'') = ''/stylesheets/style.h1234ab.css''"
    by code_simp
  have s1: "stat example_env (path_join [process_cwd example_env, ''public'', ''/stylesheets/style.css'']) =
      Inr (File ''abc'')"
    by code_simp
  have s2: "stat example_env (path_join [process_cwd example_env, ''public'', ''/stylesheets/missing.css'']) =
      Inl ENOENT"
    by code_simp
  have s3: "stat example_env (path_join [process_cwd example_env, ''public'', ''/stylesheets/style.css/'']) =
      Inl ENOTDIR"
    by code_simp
  have s4: "stat example_env (path_join [process_cwd example_env, ''public'', ''/stylesheets'']) =
      Inr Directory"
    by code_simp
  have h: "addHashToUrl ''/stylesheets/style.css'' (JStr (take 7 (digest_hex (md5 example_env ''abc'')))) =
             ''/stylesheets/style.9001509.css''"
    by code_simp
  have c: "fst (computeStaticAssetUrl example_env (JStr ''/stylesheets/style.css'') JUndefined) =
      Inr (JStr ''/stylesheets/style.9001509.css'')"
    using computeStaticAssetUrl_outcomes [of _ example_env JUndefined "''/stylesheets/style.css''"]
    by (simp add: s1 h)
  have d: "fst (computeStaticAssetUrl example_env (JStr ''/stylesheets/missing.css'') JUndefined) =
      Inr (JStr ''/stylesheets/missing.css'')"
    using computeStaticAssetUrl_outcomes [of _ example_env JUndefined "''/stylesheets/missing.css''"]
    by (simp add: s2)
  have f: "fst (computeStaticAssetUrl example_env (JStr ''/stylesheets/style.css/'') JUndefined) =
      Inr (JStr ''/stylesheets/style.css/'')"
    using computeStaticAssetUrl_outcomes [of _ example_env JUndefined "''/stylesheets/style.css/''"]
    by (simp add: s3)
  have g: "fst (computeStaticAssetUrl example_env (JStr ''/stylesheets'') JUndefined) = Inl EISDIR"
    using computeStaticAssetUrl_outcomes [of _ example_env JUndefined "''/stylesheets''"]
    by (simp add: s4)
  have s5: "stat example_env (path_join [process_cwd example_env, ''public'', ''/stylesheets/private.css'']) =
      Inr Unreadable"
    by code_simp
  have i: "fst (computeStaticAssetUrl example_env (JStr ''/stylesheets/private.css'') JUndefined) = Inl EACCES"
    using computeStaticAssetUrl_outcomes [of _ example_env JUndefined "''/stylesheets/private.css''"]
    by (simp add: s5)
  show ?thesis
    using a b c d f g i s1 s2 s3 s4 s5 by (simp only: b') simp
qed

text \<open>
  C8, as the specification has it, fails for the empty URL in the example installation: the
  path is then \<^verbatim>\<open>/srv/villagerdb/public\<close>, a directory, for which \<^verbatim>\<open>fs.existsSync\<close> is true
  and \<^verbatim>\<open>fs.readFileSync\<close> raises. The call returns neither the spliced URL nor the input
  unchanged.
\<close>

theorem computeStaticAssetUrl_directory_raises:
  "is_string (JStr []) \<and> \<not> truthy JUndefined
   \<and> stat example_env (path_join [process_cwd example_env, ''public'', []]) = Inr Directory
   \<and> computeStaticAssetUrl example_env (JStr []) JUndefined =
       (Inl EISDIR, [ExistsSync ''/srv/villagerdb/public'', ReadFileSync ''/srv/villagerdb/public''])"
  by code_simp

section \<open>Properties of getEntityImageData\<close>

lemma no_raise_pair: "no_raise (x, t) = (Inr x, t)"
  by (simp add: no_raise_def)


text \<open>
  C6. When none of the three full-size candidates exists, \<open>getEntityImageData\<close> returns the
  three placeholder paths if the placeholder flag is left out (its default is \<^verbatim>\<open>true\<close>) or is
  \<^verbatim>\<open>true\<close>, and returns nothing if the flag is \<^verbatim>\<open>false\<close>.
\<close>

theorem getEntityImageData_placeholder:
  assumes "\<forall>ext \<in> {''.png'', ''.jpg'', ''.jpeg''}.
             \<not> existsSync e (''./public/images/'' @ entityType @ ''s/full/'' @
                               to_string (image_id ident variationId) @ ext)"
  shows "fst (getEntityImageData e entityType ident variationId None) =
           Inr (Some \<lparr>thumb = JStr ''/images/image-not-available-thumb.svg'',
                      medium = JStr ''/images/image-not-available-medium.svg'',
                      full = JStr ''/images/image-not-available-full.svg''\<rparr>)
       \<and> fst (getEntityImageData e entityType ident variationId (Some True)) =
           Inr (Some \<lparr>thumb = JStr ''/images/image-not-available-thumb.svg'',
                      medium = JStr ''/images/image-not-available-medium.svg'',
                      full = JStr ''/images/image-not-available-full.svg''\<rparr>)
       \<and> fst (getEntityImageData e entityType ident variationId (Some False)) = Inr None"
proof -
  have "getImageUrl e entityType FULL ident variationId =
          (JUndefined,
           [ExistsSync (''./public/images/'' @ entityType @ ''s/full/'' @ to_string (image_id ident variationId) @ ''.png''),
            ExistsSync (''./public/images/'' @ entityType @ ''s/full/'' @ to_string (image_id ident variationId) @ ''.jpg''),
            ExistsSync (''./public/images/'' @ entityType @ ''s/full/'' @ to_string (image_id ident variationId) @ ''.jpeg'')])"
    using assms by (simp add: getImageUrl_def Let_def FULL_def)
  then show ?thesis
    by (simp add: getEntityImageData_def no_raise_pair and_then_Inr getImageNotFoundFilename_def
        THUMB_def MEDIUM_def FULL_def)
qed

theorem getEntityImageData_placeholder_witness:
  "\<not> existsSync example_env ''./public/images/items/full/9.png''
   \<and> \<not> existsSync example_env ''./public/images/items/full/9.jpg''
   \<and> \<not> existsSync example_env ''./public/images/items/full/9.jpeg''
   \<and> fst (getEntityImageData example_env ''item'' (JStr ''9'') JUndefined None) =
           Inr (Some \<lparr>thumb = JStr ''/images/image-not-available-thumb.svg'',
                      medium = JStr ''/images/image-not-available-medium.svg'',
                      full = JStr ''/images/image-not-available-full.svg''\<rparr>)
   \<and> fst (getEntityImageData example_env ''item'' (JStr ''9'') JUndefined (Some True)) =
           Inr (Some \<lparr>thumb = JStr ''/images/image-not-available-thumb.svg'',
                      medium = JStr ''/images/image-not-available-medium.svg'',
                      full = JStr ''/images/image-not-available-full.svg''\<rparr>)
   \<and> fst (getEntityImageData example_env ''item'' (JStr ''9'') JUndefined (Some False)) = Inr None"
proof -
  have probes: "\<not> existsSync example_env ''./public/images/items/full/9.png''"
               "\<not> existsSync example_env ''./public/images/items/full/9.jpg''"
               "\<not> existsSync example_env ''./public/images/items/full/9.jpeg''"
    by code_simp+
  then have missing: "\<forall>ext \<in> {''.png'', ''.jpg'', ''.jpeg''}.
      \<not> existsSync example_env (''./public/images/'' @ ''item'' @ ''s/full/'' @
                                 to_string (image_id (JStr ''9'') JUndefined) @ ext)"
    by (simp add: image_id_def)
  from getEntityImageData_placeholder [OF missing] probes show ?thesis by blast
qed







section \<open>Properties of getCacheBustedUrl\<close>

lemma addHashToUrl_nonempty: "addHashToUrl u (JStr h) \<noteq> []"
  by (simp add: addHashToUrl_string)

lemma computeStaticAssetUrl_digests:
  "length (filter is_digest (snd (computeStaticAssetUrl e v JUndefined))) \<le> 1"
proof (cases "is_string v")
  case True
  then obtain u where "v = JStr u" by (cases v) auto
  then show ?thesis
    by (simp add: computeStaticAssetUrl_computed split: sum.split node.split)
next
  case False
  then show ?thesis by (simp add: computeStaticAssetUrl_not_string)
qed

lemma computeStaticAssetUrl_digest_truthy:
  assumes "\<And>r. fst (computeStaticAssetUrl e v JUndefined) = Inr r \<Longrightarrow> \<not> truthy r"
  shows "filter is_digest (snd (computeStaticAssetUrl e v JUndefined)) = []"
proof (cases "is_string v")
  case True
  then obtain u where v: "v = JStr u" by (cases v) auto
  show ?thesis
  proof (cases "stat e (path_join [process_cwd e, ''public'', u])")
    case (Inl err)
    then show ?thesis by (simp add: v computeStaticAssetUrl_computed)
  next
    case (Inr n)
    show ?thesis
    proof (cases n)
      case (File fileStr)
      with Inr assms [of "JStr (addHashToUrl u (JStr (take HASH_LENGTH (digest_hex (md5 e fileStr)))))"]
      show ?thesis
        by (simp add: v computeStaticAssetUrl_computed addHashToUrl_nonempty)
    next
      case Directory
      with Inr show ?thesis by (simp add: v computeStaticAssetUrl_computed)
    next
      case Unreadable
      with Inr show ?thesis by (simp add: v computeStaticAssetUrl_computed)
    qed
  qed
next
  case False
  then show ?thesis by (simp add: computeStaticAssetUrl_not_string)
qed

lemma computeStaticAssetUrl_truthy:
  assumes "u \<noteq> []" and "stat e (path_join [process_cwd e, ''public'', u]) \<noteq> Inr Directory"
      and "stat e (path_join [process_cwd e, ''public'', u]) \<noteq> Inr Unreadable"
  shows "\<exists>r. fst (computeStaticAssetUrl e (JStr u) JUndefined) = Inr r \<and> truthy r"
proof (cases "stat e (path_join [process_cwd e, ''public'', u])")
  case (Inl err)
  with assms(1) show ?thesis by (simp add: computeStaticAssetUrl_computed)
next
  case (Inr n)
  with assms(2,3) obtain fileStr where "n = File fileStr" by (cases n) auto
  with Inr show ?thesis by (simp add: computeStaticAssetUrl_computed addHashToUrl_nonempty)
qed

lemma cache_set_miss:
  "\<not> truthy_property (cache_get cache k) \<Longrightarrow> cache_set cache k v = cache(to_string k \<mapsto> v)"
  by (auto simp: cache_set_def cache_get_def object_prototype_names_def split: option.splits)

lemma cache_get_stored: "cache_get (cache(to_string k \<mapsto> v)) k = Value v"
  by (simp add: cache_get_def)

lemma getCacheBustedUrl_hit:
  "truthy_property (cache_get cache k) \<Longrightarrow>
     getCacheBustedUrl e cache k = (Inr (cache_get cache k), cache, [])"
  by (simp add: getCacheBustedUrl_def)

lemma getCacheBustedUrl_miss:
  "\<not> truthy_property (cache_get cache k) \<Longrightarrow>
     fst (computeStaticAssetUrl e k JUndefined) = Inr v \<Longrightarrow>
     getCacheBustedUrl e cache k =
       (Inr (Value v), cache(to_string k \<mapsto> v), snd (computeStaticAssetUrl e k JUndefined))"
  by (cases "computeStaticAssetUrl e k JUndefined")
     (simp add: getCacheBustedUrl_def Let_def cache_set_miss cache_get_stored)

lemma getCacheBustedUrl_raises:
  "\<not> truthy_property (cache_get cache k) \<Longrightarrow>
     fst (computeStaticAssetUrl e k JUndefined) = Inl err \<Longrightarrow>
     getCacheBustedUrl e cache k = (Inl err, cache, snd (computeStaticAssetUrl e k JUndefined))"
  by (cases "computeStaticAssetUrl e k JUndefined") (simp add: getCacheBustedUrl_def)

text \<open>
  C7, as the code has it. Take two calls of \<open>getCacheBustedUrl\<close> in a row with the same
  input, on an unchanged file system, from any state of the cache.
  \<^item> Both end the same way: with the same value, or with the same error.
  \<^item> At most one MD5 digest is computed in the two calls together.
  \<^item> A first call that finds no truthy entry runs \<open>computeStaticAssetUrl\<close>. If that returns, the
    result is stored under the key \<^verbatim>\<open>ToString(inputUrl)\<close>, also when it is the unchanged URL or
    \<^verbatim>\<open>undefined\<close>, and returned. If it raises (the URL names a directory under \<^verbatim>\<open>public\<close>, or
    a file that cannot be read), the error leaves \<open>getCacheBustedUrl\<close> and nothing is stored.
  \<^item> The lookup of the second call finds a truthy entry exactly when the first call returned a
    truthy value. Then the second call is answered from the cache: no call to the file system,
    no change of the cache.
  \<^item> Otherwise (the first call returned \<^verbatim>\<open>undefined\<close> for an input that is not a string, or
    the empty string for the empty URL when nothing is at \<^verbatim>\<open>public\<close>, or it raised) the second
    call repeats the computation and its calls to the file system.
  \<^item> For every non-empty string whose path under \<^verbatim>\<open>public\<close> names a regular file that can be
    read, or nothing, the first call returns a truthy value.
\<close>

theorem getCacheBustedUrl_twice:
  assumes first: "getCacheBustedUrl e cache inputUrl = (r1, cache1, t1)"
      and second: "getCacheBustedUrl e cache1 inputUrl = (r2, cache2, t2)"
  shows "r2 = r1
     \<and> length (filter is_digest (t1 @ t2)) \<le> 1
     \<and> (\<not> truthy_property (cache_get cache inputUrl) \<longrightarrow>
          (case fst (computeStaticAssetUrl e inputUrl JUndefined) of
             Inr v \<Rightarrow> r1 = Inr (Value v) \<and> cache1 (to_string inputUrl) = Some v
           | Inl err \<Rightarrow> r1 = Inl err \<and> cache1 = cache))
     \<and> (truthy_property (cache_get cache1 inputUrl) \<longleftrightarrow> (\<exists>p. r1 = Inr p \<and> truthy_property p))
     \<and> (truthy_property (cache_get cache1 inputUrl) \<longrightarrow> t2 = [] \<and> cache2 = cache1)
     \<and> (\<not> truthy_property (cache_get cache1 inputUrl) \<longrightarrow>
          t2 = snd (computeStaticAssetUrl e inputUrl JUndefined) \<and> t2 = t1)
     \<and> (\<forall>u. inputUrl = JStr u \<and> u \<noteq> [] \<and>
              stat e (path_join [process_cwd e, ''public'', u]) \<noteq> Inr Directory \<and>
              stat e (path_join [process_cwd e, ''public'', u]) \<noteq> Inr Unreadable \<longrightarrow>
            (\<exists>p. r1 = Inr p \<and> truthy_property p))"
proof (cases "truthy_property (cache_get cache inputUrl)")
  case True
  from first have 1: "r1 = Inr (cache_get cache inputUrl)" "cache1 = cache" "t1 = []"
    using getCacheBustedUrl_hit [OF True, of e] by auto
  from second have 2: "r2 = Inr (cache_get cache inputUrl)" "cache2 = cache" "t2 = []"
    using getCacheBustedUrl_hit [OF True, of e] 1 by auto
  show ?thesis
    using True by (auto simp: 1 2)
next
  case False
  define t where "t = snd (computeStaticAssetUrl e inputUrl JUndefined)"
  have digests: "length (filter is_digest t) \<le> 1"
    unfolding t_def by (rule computeStaticAssetUrl_digests)
  show ?thesis
  proof (cases "fst (computeStaticAssetUrl e inputUrl JUndefined)")
    case (Inl err)
    from first have 1: "r1 = Inl err" "cache1 = cache" "t1 = t"
      using getCacheBustedUrl_raises [OF False Inl] by (auto simp: t_def)
    from second have 2: "r2 = Inl err" "cache2 = cache" "t2 = t"
      using getCacheBustedUrl_raises [OF False Inl] 1 by (auto simp: t_def)
    have nodigest: "filter is_digest t = []"
      unfolding t_def by (rule computeStaticAssetUrl_digest_truthy) (simp add: Inl)
    have notdir: "\<And>u. inputUrl = JStr u \<Longrightarrow> u \<noteq> [] \<Longrightarrow>
                    stat e (path_join [process_cwd e, ''public'', u]) = Inr Directory \<or>
                    stat e (path_join [process_cwd e, ''public'', u]) = Inr Unreadable"
      using computeStaticAssetUrl_truthy [of _ e] Inl by fastforce
    show ?thesis
      using False notdir by (auto simp: 1 2 Inl nodigest t_def [symmetric])
  next
    case (Inr res)
    from first have 1: "r1 = Inr (Value res)" "cache1 = cache(to_string inputUrl \<mapsto> res)" "t1 = t"
      using getCacheBustedUrl_miss [OF False Inr] by (auto simp: t_def)
    have stored: "cache_get cache1 inputUrl = Value res"
      by (simp add: 1 cache_get_stored)
    have nonempty: "\<And>u. inputUrl = JStr u \<Longrightarrow> u \<noteq> [] \<Longrightarrow>
                    stat e (path_join [process_cwd e, ''public'', u]) \<noteq> Inr Directory \<Longrightarrow>
                    stat e (path_join [process_cwd e, ''public'', u]) \<noteq> Inr Unreadable \<Longrightarrow> truthy res"
      using computeStaticAssetUrl_truthy [of _ e] Inr by fastforce
    show ?thesis
    proof (cases "truthy res")
      case True
      then have hit: "truthy_property (cache_get cache1 inputUrl)"
        by (simp add: stored)
      from second have 2: "r2 = Inr (Value res)" "cache2 = cache1" "t2 = []"
        using getCacheBustedUrl_hit [OF hit, of e] stored by auto
      show ?thesis
        using False True digests by (simp add: 1 2 Inr cache_get_stored)
    next
      case falsy: False
      then have miss: "\<not> truthy_property (cache_get cache1 inputUrl)"
        by (simp add: stored)
      from second have 2: "r2 = Inr (Value res)" "t2 = t"
        using getCacheBustedUrl_miss [OF miss Inr] by (auto simp: t_def)
      have "filter is_digest t = []"
        unfolding t_def by (rule computeStaticAssetUrl_digest_truthy) (simp add: Inr falsy)
      then show ?thesis
        using False falsy nonempty by (auto simp: 1 2 Inr cache_get_stored t_def [symmetric])
    qed
  qed
qed

theorem getCacheBustedUrl_twice_witness:
  "fst (getCacheBustedUrl example_env initial_cache (JStr ''/stylesheets/style.css'')) =
     Inr (Value (JStr ''/stylesheets/style.9001509.css''))
   \<and> filter is_digest (snd (snd (getCacheBustedUrl example_env initial_cache (JStr ''/stylesheets/style.css''))))
       = [Md5Digest ''abc'']
   \<and> fst (getCacheBustedUrl example_env
            (fst (snd (getCacheBustedUrl example_env initial_cache (JStr ''/stylesheets/style.css''))))
            (JStr ''/stylesheets/style.css'')) =
     Inr (Value (JStr ''/stylesheets/style.9001509.css''))
   \<and> snd (snd (getCacheBustedUrl example_env
            (fst (snd (getCacheBustedUrl example_env initial_cache (JStr ''/stylesheets/style.css''))))
            (JStr ''/stylesheets/style.css''))) = []"
proof -
  define u where "u = JStr ''/stylesheets/style.css''"
  define c1 where "c1 = fst (snd (getCacheBustedUrl example_env initial_cache u))"
  have first: "getCacheBustedUrl example_env initial_cache u =
                 (fst (getCacheBustedUrl example_env initial_cache u), c1,
                  snd (snd (getCacheBustedUrl example_env initial_cache u)))"
    by (simp add: c1_def)
  have second: "getCacheBustedUrl example_env c1 u =
                 (fst (getCacheBustedUrl example_env c1 u), fst (snd (getCacheBustedUrl example_env c1 u)),
                  snd (snd (getCacheBustedUrl example_env c1 u)))"
    by simp
  have r1: "fst (getCacheBustedUrl example_env initial_cache u) = Inr (Value (JStr ''/stylesheets/style.9001509.css''))"
    unfolding u_def by code_simp
  have d1: "filter is_digest (snd (snd (getCacheBustedUrl example_env initial_cache u))) = [Md5Digest ''abc'']"
    unfolding u_def by code_simp
  note inst = getCacheBustedUrl_twice [OF first second]
  from inst r1 have same: "fst (getCacheBustedUrl example_env c1 u) = Inr (Value (JStr ''/stylesheets/style.9001509.css''))"
    by simp
  from inst r1 have hit: "truthy_property (cache_get c1 u)"
    by simp
  with inst have "snd (snd (getCacheBustedUrl example_env c1 u)) = []"
    by blast
  with same r1 d1 show ?thesis
    unfolding c1_def u_def by simp
qed

text \<open>
  C7, as the specification has it, fails for the empty URL in an installation without a
  \<^verbatim>\<open>public\<close> directory: the first call probes \<^verbatim>\<open>/srv/villagerdb/public\<close>, finds nothing and
  stores the empty string under the key of the empty string; the lookup of the second call finds
  that falsy value, so the second call is not answered from the cache and probes the file system
  again.
\<close>

theorem getCacheBustedUrl_second_call_recomputes:
  "fst (getCacheBustedUrl empty_env initial_cache (JStr [])) = Inr (Value (JStr []))
   \<and> snd (snd (getCacheBustedUrl empty_env initial_cache (JStr []))) = [ExistsSync ''/srv/villagerdb/public'']
   \<and> fst (snd (getCacheBustedUrl empty_env initial_cache (JStr []))) [] = Some (JStr [])
   \<and> fst (getCacheBustedUrl empty_env (fst (snd (getCacheBustedUrl empty_env initial_cache (JStr [])))) (JStr []))
       = Inr (Value (JStr []))
   \<and> snd (snd (getCacheBustedUrl empty_env (fst (snd (getCacheBustedUrl empty_env initial_cache (JStr [])))) (JStr [])))
       = [ExistsSync ''/srv/villagerdb/public'']"
  by code_simp

text \<open>
  Three more inputs. A URL that names a directory: both calls raise and nothing is stored. An
  input that is not a string: \<^verbatim>\<open>undefined\<close> is stored, which the next lookup does not take for an
  entry. The name of a property of \<^verbatim>\<open>Object.prototype\<close>: the inherited value is returned and
  nothing is computed or stored.
\<close>

lemma getCacheBustedUrl_directory:
  "fst (getCacheBustedUrl example_env initial_cache (JStr ''/stylesheets'')) = Inl EISDIR
   \<and> fst (snd (getCacheBustedUrl example_env initial_cache (JStr ''/stylesheets''))) ''/stylesheets'' = None
   \<and> snd (snd (getCacheBustedUrl example_env initial_cache (JStr ''/stylesheets''))) =
        [ExistsSync ''/srv/villagerdb/public/stylesheets'', ReadFileSync ''/srv/villagerdb/public/stylesheets'']
   \<and> fst (getCacheBustedUrl example_env
            (fst (snd (getCacheBustedUrl example_env initial_cache (JStr ''/stylesheets''))))
            (JStr ''/stylesheets'')) = Inl EISDIR
   \<and> snd (snd (getCacheBustedUrl example_env
            (fst (snd (getCacheBustedUrl example_env initial_cache (JStr ''/stylesheets''))))
            (JStr ''/stylesheets''))) =
        [ExistsSync ''/srv/villagerdb/public/stylesheets'', ReadFileSync ''/srv/villagerdb/public/stylesheets'']"
  by code_simp

lemma getCacheBustedUrl_undefined:
  "fst (getCacheBustedUrl example_env initial_cache JUndefined) = Inr (Value JUndefined)
   \<and> fst (snd (getCacheBustedUrl example_env initial_cache JUndefined)) ''undefined'' = Some JUndefined
   \<and> \<not> truthy_property
         (cache_get (fst (snd (getCacheBustedUrl example_env initial_cache JUndefined))) JUndefined)"
  by code_simp

lemma getCacheBustedUrl_inherited:
  "fst (getCacheBustedUrl example_env initial_cache (JStr ''constructor'')) = Inr (Inherited ''constructor'')
   \<and> fst (snd (getCacheBustedUrl example_env initial_cache (JStr ''constructor''))) ''constructor'' = None
   \<and> snd (snd (getCacheBustedUrl example_env initial_cache (JStr ''constructor''))) = []"
  by code_simp

end
